theory Spec2Isabelle
  imports Main
begin

section \<open>The JavaScript values the time tools compute with\<close>

text \<open>
  A JavaScript number is modelled as \<open>int option\<close>: \<open>None\<close> is NaN, \<open>Some i\<close> the
  integer \<open>i\<close>. The planner only ever computes with calendar fields and millisecond
  counts; fractional and infinite numbers are outside this model.
\<close>

type_synonym jsnum = "int option"

datatype error = RangeError

definition num_sub :: "jsnum \<Rightarrow> jsnum \<Rightarrow> jsnum" where
  "num_sub a b = (case a of None \<Rightarrow> None | Some x \<Rightarrow> (case b of None \<Rightarrow> None | Some y \<Rightarrow> Some (x - y)))"

definition num_add :: "jsnum \<Rightarrow> jsnum \<Rightarrow> jsnum" where
  "num_add a b = (case a of None \<Rightarrow> None | Some x \<Rightarrow> (case b of None \<Rightarrow> None | Some y \<Rightarrow> Some (x + y)))"

text \<open>\<open>Math.abs(a) < k\<close>: every comparison with NaN is false.\<close>

definition abs_lt :: "jsnum \<Rightarrow> int \<Rightarrow> bool" where
  "abs_lt a k = (case a of None \<Rightarrow> False | Some x \<Rightarrow> \<bar>x\<bar> < k)"

subsection \<open>Strings\<close>

text \<open>
  \<open>s.split(c)\<close> for a one-character separator: the pieces between the separators, in
  order; a string without the separator (the empty string too) is a single piece.
\<close>

fun split :: "char \<Rightarrow> string \<Rightarrow> string list" where
  "split c [] = [[]]"
| "split c (x # xs) =
     (if x = c then [] # split c xs
      else (case split c xs of [] \<Rightarrow> [[x]] | p # ps \<Rightarrow> (x # p) # ps))"

definition isWhite :: "char \<Rightarrow> bool" where
  "isWhite c = (c = CHR '' '' \<or> c = CHR 0x09 \<or> c = CHR 0x0A \<or> c = CHR 0x0B \<or> c = CHR 0x0C \<or> c = CHR 0x0D)"

definition isDigit :: "char \<Rightarrow> bool" where
  "isDigit c = (c \<in> set ''0123456789'')"

text \<open>The decimal digits, each with its value.\<close>

definition digitTable :: "(char \<times> int) list" where
  "digitTable = zip ''0123456789'' [0, 1, 2, 3, 4, 5, 6, 7, 8, 9]"

definition digitVal :: "char \<Rightarrow> int" where
  "digitVal c = (case map_of digitTable c of None \<Rightarrow> 0 | Some d \<Rightarrow> d)"

definition digitsVal :: "string \<Rightarrow> int" where
  "digitsVal ds = foldl (\<lambda>acc c. acc * 10 + digitVal c) 0 ds"

definition unsignedDec :: "string \<Rightarrow> jsnum" where
  "unsignedDec ds = (if ds \<noteq> [] \<and> list_all isDigit ds then Some (digitsVal ds) else None)"

definition trim :: "string \<Rightarrow> string" where
  "trim s = rev (dropWhile isWhite (rev (dropWhile isWhite s)))"

text \<open>
  \<open>Number(s)\<close> on the strings whose value is an integer written in decimal: white
  space around it is dropped, the empty string is 0, a sign may lead, and anything
  that is not a run of decimal digits is NaN. (Literals with a fraction, an exponent
  or a radix prefix are not integers written in decimal; the model reads them as NaN.)
\<close>

definition Number :: "string \<Rightarrow> jsnum" where
  "Number s =
     (case trim s of
        [] \<Rightarrow> Some 0
      | c # r \<Rightarrow>
          if c = CHR ''-'' then map_option uminus (unsignedDec r)
          else if c = CHR ''+'' then unsignedDec r
          else unsignedDec (c # r))"

text \<open>
  \<open>parseInt(s, 10)\<close>: leading white space is skipped, a sign may lead, the longest run
  of decimal digits is read, and the rest of the string is ignored; no digit at all
  is NaN.
\<close>

definition digitsPrefix :: "string \<Rightarrow> jsnum" where
  "digitsPrefix r = (let ds = takeWhile isDigit r in if ds = [] then None else Some (digitsVal ds))"

definition parseInt :: "string \<Rightarrow> jsnum" where
  "parseInt s =
     (case dropWhile isWhite s of
        [] \<Rightarrow> None
      | c # r \<Rightarrow>
          if c = CHR ''-'' then map_option uminus (digitsPrefix r)
          else if c = CHR ''+'' then digitsPrefix r
          else digitsPrefix (c # r))"

subsection \<open>\<open>Date.UTC\<close> and \<open>new Date\<close>\<close>

text \<open>
  The time value of a \<open>Date\<close> is a \<open>jsnum\<close>: milliseconds since the epoch, NaN for an
  invalid date. The definitions follow the abstract operations of the language
  standard: \<open>DayFromYear\<close>, \<open>MakeDay\<close>, \<open>MakeTime\<close>, \<open>MakeDate\<close>, \<open>TimeClip\<close>.
\<close>

definition msPerDay :: int where
  "msPerDay = 86400000"

definition DayFromYear :: "int \<Rightarrow> int" where
  "DayFromYear y = 365 * (y - 1970) + (y - 1969) div 4 - (y - 1901) div 100 + (y - 1601) div 400"

definition InLeapYear :: "int \<Rightarrow> bool" where
  "InLeapYear y = (y mod 4 = 0 \<and> (y mod 100 \<noteq> 0 \<or> y mod 400 = 0))"

text \<open>Days of the year before month \<open>m\<close> (0 is January).\<close>

definition daysBeforeMonth :: "bool \<Rightarrow> int \<Rightarrow> int" where
  "daysBeforeMonth leap m =
     (if m = 0 then 0 else if m = 1 then 31
      else (if leap then 1 else 0) +
        (if m = 2 then 59 else if m = 3 then 90 else if m = 4 then 120
         else if m = 5 then 151 else if m = 6 then 181 else if m = 7 then 212
         else if m = 8 then 243 else if m = 9 then 273 else if m = 10 then 304
         else 334))"

definition MakeDay :: "int \<Rightarrow> int \<Rightarrow> int \<Rightarrow> int" where
  "MakeDay yr m dt =
     (let ym = yr + m div 12; mn = m mod 12
      in DayFromYear ym + daysBeforeMonth (InLeapYear ym) mn + dt - 1)"

definition MakeTime :: "int \<Rightarrow> int \<Rightarrow> int" where
  "MakeTime hr mi = hr * 3600000 + mi * 60000"

definition TimeClip :: "jsnum \<Rightarrow> jsnum" where
  "TimeClip v = (case v of None \<Rightarrow> None
                 | Some t \<Rightarrow> if \<bar>t\<bar> > 8640000000000000 then None else Some t)"

text \<open>
  \<open>Date.UTC(y, m, d, h, min)\<close>: NaN when an argument is NaN (an argument that is
  \<open>undefined\<close> is NaN as well); a year from 0 to 99 means 1900 to 1999; fields out of
  their calendar range carry over.
\<close>

definition DateUTC :: "jsnum \<Rightarrow> jsnum \<Rightarrow> jsnum \<Rightarrow> jsnum \<Rightarrow> jsnum \<Rightarrow> jsnum" where
  "DateUTC y m d hr mi =
     (case y of None \<Rightarrow> None | Some yv \<Rightarrow>
     (case m of None \<Rightarrow> None | Some mv \<Rightarrow>
     (case d of None \<Rightarrow> None | Some dv \<Rightarrow>
     (case hr of None \<Rightarrow> None | Some hv \<Rightarrow>
     (case mi of None \<Rightarrow> None | Some miv \<Rightarrow>
        (let yr = (if 0 \<le> yv \<and> yv \<le> 99 then 1900 + yv else yv)
         in TimeClip (Some (MakeDay yr mv dv * msPerDay + MakeTime hv miv))))))))"

text \<open>\<open>new Date(v)\<close> keeps the clipped time value.\<close>

definition newDate :: "jsnum \<Rightarrow> jsnum" where
  "newDate v = TimeClip v"

section \<open>The zone-aware formatter\<close>

text \<open>
  \<open>Intl.DateTimeFormat\<close> belongs to the platform, with its locale data and its time
  zone database. It is a parameter of the model: a \<open>host\<close> says which zone identifiers
  it resolves and which parts it reports for a request, a zone and a time value.
  The three requests are the three option sets the component formats with.
\<close>

datatype zoneNameStyle = Short | ShortOffset | LongOffset | Long

datatype request =
    NumericEnUS
  | TwoDigitEnGB
  | ZoneNameEnUS zoneNameStyle

type_synonym part = "string \<times> string"

record host =
  resolves :: "string \<Rightarrow> bool"
  reports :: "request \<Rightarrow> string \<Rightarrow> int \<Rightarrow> part list"

text \<open>
  \<open>new Intl.DateTimeFormat(locale, {timeZone: zone, ...}).formatToParts(date)\<close>: the
  constructor throws a \<open>RangeError\<close> for a zone it cannot resolve, and \<open>formatToParts\<close>
  throws a \<open>RangeError\<close> for an invalid date.
\<close>

definition formatToParts :: "host \<Rightarrow> request \<Rightarrow> string \<Rightarrow> jsnum \<Rightarrow> error + part list" where
  "formatToParts hst req zone date =
     (if \<not> resolves hst zone then Inl RangeError
      else (case date of None \<Rightarrow> Inl RangeError
            | Some t \<Rightarrow> Inr (reports hst req zone t)))"

text \<open>\<open>parts.find(p => p.type === t)?.value || dflt\<close>\<close>

definition partValue :: "part list \<Rightarrow> string \<Rightarrow> string \<Rightarrow> string" where
  "partValue parts t dflt =
     (case map_of parts t of None \<Rightarrow> dflt | Some v \<Rightarrow> if v = [] then dflt else v)"

section \<open>The wall-clock converter\<close>

record wallClock =
  c_y :: jsnum
  c_mon :: jsnum
  c_d :: jsnum
  c_h :: jsnum
  c_min :: jsnum

text \<open>An array element that a destructuring pattern does not find is \<open>undefined\<close>; every use
  of these elements is arithmetic or \<open>Date.UTC\<close>, where \<open>undefined\<close> is NaN.\<close>

definition element :: "jsnum list \<Rightarrow> nat \<Rightarrow> jsnum" where
  "element xs i = (if i < length xs then xs ! i else None)"

definition parseIsoLocal :: "string \<Rightarrow> wallClock option" where
  "parseIsoLocal s =
     (if s = [] then None
      else (case split CHR ''T'' s of
              date # time # _ \<Rightarrow>
                if date = [] \<or> time = [] then None
                else (let ymd = map Number (split CHR ''-'' date);
                          hm = map Number (split CHR '':'' time)
                      in Some \<lparr> c_y = element ymd 0,
                                c_mon = num_sub (element ymd 1) (Some 1),
                                c_d = element ymd 2,
                                c_h = element hm 0,
                                c_min = element hm 1 \<rparr>)
            | _ \<Rightarrow> None))"

definition partVal :: "part list \<Rightarrow> string \<Rightarrow> jsnum" where
  "partVal parts t = parseInt (partValue parts t ''0'')"

text \<open>The fields \<open>gy, gm, gd, gh, gmin\<close> of one pass of the loop, read from the parts the
  formatter reported for the guess.\<close>

definition guessFields :: "part list \<Rightarrow> wallClock" where
  "guessFields parts =
     \<lparr> c_y = partVal parts ''year'',
       c_mon = num_sub (partVal parts ''month'') (Some 1),
       c_d = partVal parts ''day'',
       c_h = (let gh = partVal parts ''hour'' in if gh = Some 24 then Some 0 else gh),
       c_min = partVal parts ''minute'' \<rparr>"

definition utcOf :: "wallClock \<Rightarrow> jsnum" where
  "utcOf c = DateUTC (c_y c) (c_mon c) (c_d c) (c_h c) (c_min c)"

text \<open>The \<open>for\<close> loop of \<open>localStringToDate\<close>, from counter \<open>i\<close> and the current guess.\<close>

function converge :: "host \<Rightarrow> wallClock \<Rightarrow> string \<Rightarrow> nat \<Rightarrow> jsnum \<Rightarrow> error + jsnum" where
  "converge hst c zone i guess =
     (if i < 3 then
        (case formatToParts hst NumericEnUS zone guess of
           Inl e \<Rightarrow> Inl e
         | Inr parts \<Rightarrow>
             (let guessTime = utcOf (guessFields parts);
                  desiredTime = utcOf c;
                  diff = num_sub desiredTime guessTime
              in if abs_lt diff 1000 then Inr guess
                 else converge hst c zone (i + 1) (newDate (num_add guess diff))))
      else Inr guess)"
  by pat_completeness auto
termination
  by (relation "measure (\<lambda>(hst, c, zone, i, guess). 3 - i)") auto

text \<open>The result is \<open>Inl\<close> an uncaught exception, \<open>Inr None\<close> for \<open>null\<close>, \<open>Inr (Some d)\<close>
  for a \<open>Date\<close> with time value \<open>d\<close>.\<close>

definition localStringToDate :: "host \<Rightarrow> string \<Rightarrow> string \<Rightarrow> error + jsnum option" where
  "localStringToDate hst s zone =
     (case parseIsoLocal s of
        None \<Rightarrow> Inr None
      | Some c \<Rightarrow>
          (case converge hst c zone 0 (newDate (utcOf c)) of
             Inl e \<Rightarrow> Inl e
           | Inr guess \<Rightarrow> Inr (Some guess)))"

text \<open>The template string that \<open>dateToLocalString\<close> returns, from the parts.\<close>

definition wallClockString :: "part list \<Rightarrow> string" where
  "wallClockString parts =
     partValue parts ''year'' ''00'' @ ''-'' @ partValue parts ''month'' ''00'' @ ''-'' @
     partValue parts ''day'' ''00'' @ ''T'' @ partValue parts ''hour'' ''00'' @ '':'' @
     partValue parts ''minute'' ''00''"

definition dateToLocalString :: "host \<Rightarrow> jsnum \<Rightarrow> string \<Rightarrow> string" where
  "dateToLocalString hst d zone =
     (case formatToParts hst TwoDigitEnGB zone d of
        Inl e \<Rightarrow> []
      | Inr parts \<Rightarrow> wallClockString parts)"

section \<open>The meeting planner\<close>

text \<open>
  The planner's state: the two zone identifiers it is rendered with, the two
  \<open>datetime-local\<close> strings, and which of them was edited last (the anchor).
\<close>

datatype side = User | Client

record planner =
  userTimezone :: string
  clientTimezone :: string
  userMeetingTime :: string
  clientMeetingTime :: string
  lastEdited :: side

text \<open>
  A handler returns the state after the updates it queued, and the exception that left
  it uncaught, if any: the setters called before the exception have been called.
\<close>

definition handleUserTimeChange :: "host \<Rightarrow> string \<Rightarrow> planner \<Rightarrow> planner \<times> error option" where
  "handleUserTimeChange hst val st =
     (let st1 = st\<lparr> userMeetingTime := val, lastEdited := User \<rparr>
      in if val \<noteq> [] then
           (case localStringToDate hst val (userTimezone st) of
              Inl e \<Rightarrow> (st1, Some e)
            | Inr None \<Rightarrow> (st1, None)
            | Inr (Some absDate) \<Rightarrow>
                (st1\<lparr> clientMeetingTime := dateToLocalString hst absDate (clientTimezone st) \<rparr>, None))
         else (st1\<lparr> clientMeetingTime := [] \<rparr>, None))"

definition handleClientTimeChange :: "host \<Rightarrow> string \<Rightarrow> planner \<Rightarrow> planner \<times> error option" where
  "handleClientTimeChange hst val st =
     (let st1 = st\<lparr> clientMeetingTime := val, lastEdited := Client \<rparr>
      in if val \<noteq> [] then
           (case localStringToDate hst val (clientTimezone st) of
              Inl e \<Rightarrow> (st1, Some e)
            | Inr None \<Rightarrow> (st1, None)
            | Inr (Some absDate) \<Rightarrow>
                (st1\<lparr> userMeetingTime := dateToLocalString hst absDate (userTimezone st) \<rparr>, None))
         else (st1\<lparr> userMeetingTime := [] \<rparr>, None))"

text \<open>The effect that reacts to a change of zone (the \<open>useEffect\<close> after the handlers).\<close>

definition timezoneEffect :: "host \<Rightarrow> planner \<Rightarrow> planner \<times> error option" where
  "timezoneEffect hst st =
     (if lastEdited st = User \<and> userMeetingTime st \<noteq> [] then
        (case localStringToDate hst (userMeetingTime st) (userTimezone st) of
           Inl e \<Rightarrow> (st, Some e)
         | Inr None \<Rightarrow> (st, None)
         | Inr (Some absDate) \<Rightarrow>
             (st\<lparr> clientMeetingTime := dateToLocalString hst absDate (clientTimezone st) \<rparr>, None))
      else if lastEdited st = Client \<and> clientMeetingTime st \<noteq> [] then
        (case localStringToDate hst (clientMeetingTime st) (clientTimezone st) of
           Inl e \<Rightarrow> (st, Some e)
         | Inr None \<Rightarrow> (st, None)
         | Inr (Some absDate) \<Rightarrow>
             (st\<lparr> userMeetingTime := dateToLocalString hst absDate (userTimezone st) \<rparr>, None))
      else (st, None))"

text \<open>The parent sets a zone identifier; the planner is rendered with it and the effect runs.\<close>

definition setUserTimezone :: "host \<Rightarrow> string \<Rightarrow> planner \<Rightarrow> planner \<times> error option" where
  "setUserTimezone hst tz st = timezoneEffect hst (st\<lparr> userTimezone := tz \<rparr>)"

definition setClientTimezone :: "host \<Rightarrow> string \<Rightarrow> planner \<Rightarrow> planner \<times> error option" where
  "setClientTimezone hst tz st = timezoneEffect hst (st\<lparr> clientTimezone := tz \<rparr>)"

section \<open>The zone label\<close>

text \<open>The inner \<open>formatter\<close> of \<open>getAbbreviation\<close>: the \<open>timeZoneName\<close> part, or the empty string.\<close>

definition formatter :: "host \<Rightarrow> jsnum \<Rightarrow> string \<Rightarrow> zoneNameStyle \<Rightarrow> error + string" where
  "formatter hst date timeZone style =
     (case formatToParts hst (ZoneNameEnUS style) timeZone date of
        Inl e \<Rightarrow> Inl e
      | Inr parts \<Rightarrow> Inr (partValue parts ''timeZoneName'' []))"

text \<open>\<open>/^GMT[+-]/.test(s) || /^UTC[+-]/.test(s)\<close>\<close>

definition isOffsetLike :: "string \<Rightarrow> bool" where
  "isOffsetLike s =
     (take 4 s = ''GMT+'' \<or> take 4 s = ''GMT-'' \<or> take 4 s = ''UTC+'' \<or> take 4 s = ''UTC-'')"

definition isUpper :: "char \<Rightarrow> bool" where
  "isUpper c = (c \<in> set ''ABCDEFGHIJKLMNOPQRSTUVWXYZ'')"

definition isLower :: "char \<Rightarrow> bool" where
  "isLower c = (c \<in> set ''abcdefghijklmnopqrstuvwxyz'')"

definition isWord :: "char \<Rightarrow> bool" where
  "isWord c = (isUpper c \<or> isLower c \<or> isDigit c \<or> c = CHR ''_'')"

text \<open>
  \<open>longName.match(/\b([A-Z])/g)?.join('')\<close>: the capital letters that stand at a word
  boundary, that is, at the start of the string or after a character that is not a
  letter, a digit or an underscore. \<open>prev\<close> says whether the character before is a word
  character. No match gives \<open>undefined\<close>, read here as the empty string: the test of
  the length rejects both.
\<close>

fun capitals :: "bool \<Rightarrow> string \<Rightarrow> string" where
  "capitals prev [] = []"
| "capitals prev (c # cs) =
     (if isUpper c \<and> \<not> prev then c # capitals (isWord c) cs else capitals (isWord c) cs)"

definition acronymOf :: "string \<Rightarrow> string" where
  "acronymOf longName = capitals False longName"

text \<open>The body of the \<open>try\<close> block of \<open>getAbbreviation\<close>.\<close>

definition abbreviationBody :: "host \<Rightarrow> jsnum \<Rightarrow> string \<Rightarrow> error + string" where
  "abbreviationBody hst date timeZone =
     (case formatter hst date timeZone Short of
        Inl e \<Rightarrow> Inl e
      | Inr shortName \<Rightarrow>
     (case formatter hst date timeZone ShortOffset of
        Inl e \<Rightarrow> Inl e
      | Inr so \<Rightarrow>
     (case (if so \<noteq> [] then Inr so else formatter hst date timeZone LongOffset) of
        Inl e \<Rightarrow> Inl e
      | Inr offset \<Rightarrow>
     (case (if isOffsetLike shortName then
              (case formatter hst date timeZone Long of
                 Inl e \<Rightarrow> Inl e
               | Inr longName \<Rightarrow>
                   (let acronym = acronymOf longName
                    in if longName \<noteq> [] \<and> acronym \<noteq> [] \<and> 2 \<le> length acronym \<and> length acronym \<le> 5
                       then Inr acronym else Inr shortName))
            else Inr shortName) of
        Inl e \<Rightarrow> Inl e
      | Inr abbreviation \<Rightarrow>
          if isOffsetLike abbreviation then Inr abbreviation
          else if abbreviation = offset then Inr abbreviation
          else Inr (abbreviation @ '' ('' @ offset @ '')'')))))"

definition getAbbreviation :: "host \<Rightarrow> jsnum \<Rightarrow> string \<Rightarrow> string" where
  "getAbbreviation hst date timeZone =
     (case abbreviationBody hst date timeZone of Inl e \<Rightarrow> [] | Inr label \<Rightarrow> label)"

section \<open>A formatter over a table of offsets\<close>

text \<open>
  A host for running the converter: each zone of a table has an offset from UTC, in
  minutes, that may depend on the instant, and its names. The formatter shows the
  calendar fields of the instant moved by the offset, in the order and with the
  digits the two locales use.
\<close>

function yearFrom :: "int \<Rightarrow> int \<Rightarrow> int" where
  "yearFrom n y = (if DayFromYear (y + 1) \<le> n \<and> DayFromYear y < DayFromYear (y + 1)
                   then yearFrom n (y + 1) else y)"
  by pat_completeness auto
termination
  by (relation "measure (\<lambda>(n, y). nat (n - DayFromYear y))") auto

definition YearFromDay :: "int \<Rightarrow> int" where
  "YearFromDay n = yearFrom n (1970 + (if 0 \<le> n then n div 366 else n div 365))"

definition MonthFromDay :: "bool \<Rightarrow> int \<Rightarrow> int" where
  "MonthFromDay leap k =
     (if k < daysBeforeMonth leap 1 then 0 else if k < daysBeforeMonth leap 2 then 1
      else if k < daysBeforeMonth leap 3 then 2 else if k < daysBeforeMonth leap 4 then 3
      else if k < daysBeforeMonth leap 5 then 4 else if k < daysBeforeMonth leap 6 then 5
      else if k < daysBeforeMonth leap 7 then 6 else if k < daysBeforeMonth leap 8 then 7
      else if k < daysBeforeMonth leap 9 then 8 else if k < daysBeforeMonth leap 10 then 9
      else if k < daysBeforeMonth leap 11 then 10 else 11)"

record civil =
  year :: int
  month :: int
  day :: int
  hour :: int
  minute :: int
  second :: int

text \<open>The calendar fields of a local time value (milliseconds), month counted from 1.\<close>

definition civilOf :: "int \<Rightarrow> civil" where
  "civilOf t =
     (let n = t div msPerDay; r = t mod msPerDay;
          y = YearFromDay n; k = n - DayFromYear y;
          m = MonthFromDay (InLeapYear y) k
      in \<lparr> year = y, month = m + 1, day = k - daysBeforeMonth (InLeapYear y) m + 1,
           hour = r div 3600000, minute = (r mod 3600000) div 60000,
           second = (r mod 60000) div 1000 \<rparr>)"

definition digitChar :: "int \<Rightarrow> char" where
  "digitChar d =
     (case map_of (map (\<lambda>(c, v). (v, c)) digitTable) d of None \<Rightarrow> CHR ''0'' | Some c \<Rightarrow> c)"

function digitsOf :: "int \<Rightarrow> string" where
  "digitsOf n = (if n < 10 then [digitChar n] else digitsOf (n div 10) @ [digitChar (n mod 10)])"
  by pat_completeness auto
termination
  by (relation "measure nat") auto

definition showInt :: "int \<Rightarrow> string" where
  "showInt i = (if i < 0 then CHR ''-'' # digitsOf (- i) else digitsOf i)"

definition pad2 :: "int \<Rightarrow> string" where
  "pad2 i = (if 0 \<le> i \<and> i < 10 then CHR ''0'' # showInt i else showInt i)"

record rule =
  offsetAt :: "int \<Rightarrow> int"
  nameAt :: "zoneNameStyle \<Rightarrow> int \<Rightarrow> string"

definition partsOf :: "request \<Rightarrow> rule \<Rightarrow> int \<Rightarrow> part list" where
  "partsOf req r t =
     (let f = civilOf (t + offsetAt r t * 60000)
      in case req of
           NumericEnUS \<Rightarrow>
             [(''month'', showInt (month f)), (''literal'', ''/''), (''day'', showInt (day f)),
              (''literal'', ''/''), (''year'', showInt (year f)), (''literal'', '', ''),
              (''hour'', pad2 (hour f)), (''literal'', '':''), (''minute'', pad2 (minute f)),
              (''literal'', '':''), (''second'', pad2 (second f))]
         | TwoDigitEnGB \<Rightarrow>
             [(''day'', pad2 (day f)), (''literal'', ''/''), (''month'', pad2 (month f)),
              (''literal'', ''/''), (''year'', showInt (year f)), (''literal'', '', ''),
              (''hour'', pad2 (hour f)), (''literal'', '':''), (''minute'', pad2 (minute f))]
         | ZoneNameEnUS style \<Rightarrow>
             [(''month'', showInt (month f)), (''literal'', ''/''), (''day'', showInt (day f)),
              (''literal'', ''/''), (''year'', showInt (year f)), (''literal'', '', ''),
              (''timeZoneName'', nameAt r style t)])"

definition tableHost :: "(string \<rightharpoonup> rule) \<Rightarrow> host" where
  "tableHost tbl =
     \<lparr> resolves = (\<lambda>zone. tbl zone \<noteq> None),
       reports = (\<lambda>req zone t. case tbl zone of None \<Rightarrow> [] | Some r \<Rightarrow> partsOf req r t) \<rparr>"

text \<open>
  The table the scenarios run on: the zones of the specification's examples with their
  rules for 2024, and the names the \<open>en-US\<close> locale gives them.
\<close>

definition fixedRule :: "int \<Rightarrow> string \<Rightarrow> string \<Rightarrow> string \<Rightarrow> string \<Rightarrow> rule" where
  "fixedRule off short shortOff longOff long =
     \<lparr> offsetAt = (\<lambda>t. off),
       nameAt = (\<lambda>style t. case style of Short \<Rightarrow> short | ShortOffset \<Rightarrow> shortOff
                                     | LongOffset \<Rightarrow> longOff | Long \<Rightarrow> long) \<rparr>"

definition newYork :: rule where
  "newYork =
     \<lparr> offsetAt = (\<lambda>t. if 1710054000000 \<le> t \<and> t < 1730613600000 then - 240 else - 300),
       nameAt = (\<lambda>style t.
         if 1710054000000 \<le> t \<and> t < 1730613600000
         then (case style of Short \<Rightarrow> ''EDT'' | ShortOffset \<Rightarrow> ''GMT-4''
                 | LongOffset \<Rightarrow> ''GMT-04:00'' | Long \<Rightarrow> ''Eastern Daylight Time'')
         else (case style of Short \<Rightarrow> ''EST'' | ShortOffset \<Rightarrow> ''GMT-5''
                 | LongOffset \<Rightarrow> ''GMT-05:00'' | Long \<Rightarrow> ''Eastern Standard Time'')) \<rparr>"

definition london :: rule where
  "london =
     \<lparr> offsetAt = (\<lambda>t. if 1711846800000 \<le> t \<and> t < 1729990800000 then 60 else 0),
       nameAt = (\<lambda>style t.
         if 1711846800000 \<le> t \<and> t < 1729990800000
         then (case style of Short \<Rightarrow> ''GMT+1'' | ShortOffset \<Rightarrow> ''GMT+1''
                 | LongOffset \<Rightarrow> ''GMT+01:00'' | Long \<Rightarrow> ''British Summer Time'')
         else (case style of Short \<Rightarrow> ''GMT'' | ShortOffset \<Rightarrow> ''GMT''
                 | LongOffset \<Rightarrow> ''GMT'' | Long \<Rightarrow> ''Greenwich Mean Time'')) \<rparr>"

definition utc :: rule where
  "utc = fixedRule 0 ''UTC'' ''GMT'' ''GMT'' ''Coordinated Universal Time''"

definition kolkata :: rule where
  "kolkata = fixedRule 330 ''GMT+5:30'' ''GMT+5:30'' ''GMT+05:30'' ''India Standard Time''"

definition etcGmtPlus5 :: rule where
  "etcGmtPlus5 = fixedRule (- 300) ''GMT-5'' ''GMT-5'' ''GMT-05:00'' ''GMT-05:00''"

definition zones2024 :: "string \<rightharpoonup> rule" where
  "zones2024 =
     [''UTC'' \<mapsto> utc, ''Asia/Kolkata'' \<mapsto> kolkata, ''Etc/GMT+5'' \<mapsto> etcGmtPlus5,
      ''America/New_York'' \<mapsto> newYork, ''Europe/London'' \<mapsto> london]"

definition host2024 :: host where
  "host2024 = tableHost zones2024"

text \<open>
  The same host on a platform whose 24-hour clock counts midnight as hour 24: every
  \<open>hour\<close> part that would read \<open>00\<close> reads \<open>24\<close>.
\<close>

definition hour24 :: "host \<Rightarrow> host" where
  "hour24 hst =
     hst\<lparr> reports := (\<lambda>req zone t.
             map (\<lambda>(k, v). if k = ''hour'' \<and> v = ''00'' then (k, ''24'') else (k, v))
               (reports hst req zone t)) \<rparr>"

section \<open>The specification's operations\<close>





text \<open>\<open>convert\<close> is \<open>renderWallClock\<close> after \<open>resolveInstant\<close>, on the strings of the two fields.\<close>

definition convert :: "host \<Rightarrow> string \<Rightarrow> string \<Rightarrow> string \<Rightarrow> error + string option" where
  "convert hst w fromZone toZone =
     (case localStringToDate hst w fromZone of
        Inl e \<Rightarrow> Inl e
      | Inr None \<Rightarrow> Inr None
      | Inr (Some absDate) \<Rightarrow> Inr (Some (dateToLocalString hst absDate toZone)))"







section \<open>Wall-clock values and zones of the round trip\<close>










section \<open>Properties of the strings\<close>

declare converge.simps [simp del]






section \<open>The table of 2024\<close>

lemma host2024_resolves: "resolves host2024 zone = (zones2024 zone \<noteq> None)"
  by (simp add: host2024_def tableHost_def)

lemma host2024_reports:
  "reports host2024 req zone t = (case zones2024 zone of None \<Rightarrow> [] | Some r \<Rightarrow> partsOf req r t)"
  by (simp add: host2024_def tableHost_def)

lemma hour24_resolves: "resolves (hour24 hst) zone = resolves hst zone"
  by (simp add: hour24_def)

lemma hour24_reports:
  "reports (hour24 hst) req zone t =
     map (\<lambda>(k, v). if k = ''hour'' \<and> v = ''00'' then (k, ''24'') else (k, v)) (reports hst req zone t)"
  by (simp add: hour24_def)

lemma zones2024_lookup:
  "zones2024 ''UTC'' = Some utc"
  "zones2024 ''Asia/Kolkata'' = Some kolkata"
  "zones2024 ''Etc/GMT+5'' = Some etcGmtPlus5"
  "zones2024 ''America/New_York'' = Some newYork"
  "zones2024 ''Europe/London'' = Some london"
  "zones2024 ''Mars/Olympus'' = None"
  by (simp_all add: zones2024_def)

lemmas host2024_simps = host2024_resolves host2024_reports hour24_resolves hour24_reports zones2024_lookup

section \<open>The convergence loop\<close>


lemma converge_close:
  "i < 3 \<Longrightarrow> resolves hst zone \<Longrightarrow>
   utcOf (guessFields (reports hst NumericEnUS zone t)) = Some a \<Longrightarrow> utcOf c = Some u \<Longrightarrow>
   \<bar>u - a\<bar> < 1000 \<Longrightarrow> converge hst c zone i (Some t) = Inr (Some t)"
  by (subst converge.simps) (simp add: formatToParts_def num_sub_def abs_lt_def)

lemma converge_far:
  "i < 3 \<Longrightarrow> resolves hst zone \<Longrightarrow>
   utcOf (guessFields (reports hst NumericEnUS zone t)) = Some a \<Longrightarrow> utcOf c = Some u \<Longrightarrow>
   \<not> \<bar>u - a\<bar> < 1000 \<Longrightarrow>
   converge hst c zone i (Some t) = converge hst c zone (Suc i) (TimeClip (Some (t + (u - a))))"
  by (subst converge.simps) (simp add: formatToParts_def num_sub_def num_add_def abs_lt_def newDate_def)


lemma converge_unresolved:
  "\<not> resolves hst zone \<Longrightarrow> converge hst c zone 0 g = Inl RangeError"
  by (subst converge.simps) (simp add: formatToParts_def)

lemma localStringToDate_first_pass:
  assumes "parseIsoLocal s = Some c" "utcOf c = Some u" "resolves hst zone"
    and "utcOf (guessFields (reports hst NumericEnUS zone u)) = Some a" "\<bar>u - a\<bar> < 1000"
  shows "localStringToDate hst s zone = Inr (Some (Some u))"
proof -
  have "TimeClip (Some u) = Some u"
    using assms(2) by (auto simp: utcOf_def DateUTC_def TimeClip_def Let_def split: option.splits if_splits)
  then show ?thesis
    using converge_close[OF _ assms(3,4,2,5), of 0]
    by (simp add: localStringToDate_def assms(1,2) newDate_def)
qed

lemma localStringToDate_second_pass:
  assumes "parseIsoLocal s = Some c" "utcOf c = Some u" "resolves hst zone"
    and "utcOf (guessFields (reports hst NumericEnUS zone u)) = Some a" "\<not> \<bar>u - a\<bar> < 1000"
    and "\<bar>u + (u - a)\<bar> \<le> 8640000000000000"
    and "utcOf (guessFields (reports hst NumericEnUS zone (u + (u - a)))) = Some b" "\<bar>u - b\<bar> < 1000"
  shows "localStringToDate hst s zone = Inr (Some (Some (u + (u - a))))"
proof -
  have "TimeClip (Some u) = Some u"
    using assms(2) by (auto simp: utcOf_def DateUTC_def TimeClip_def Let_def split: option.splits if_splits)
  moreover have "TimeClip (Some (u + (u - a))) = Some (u + (u - a))"
    using assms(6) by (simp add: TimeClip_def)
  ultimately show ?thesis
    using converge_far[OF _ assms(3,4,2,5), of 0] converge_close[OF _ assms(3,7,2,8), of "Suc 0"]
    by (simp add: localStringToDate_def assms(1,2) newDate_def)
qed

lemma dateToLocalString_resolved:
  "resolves hst zone \<Longrightarrow>
   dateToLocalString hst (Some t) zone = wallClockString (reports hst TwoDigitEnGB zone t)"
  by (simp add: dateToLocalString_def formatToParts_def)

lemma eval_jan15_1400:
  "parseIsoLocal ''2024-01-15T14:00'' =
     Some \<lparr> c_y = Some 2024, c_mon = Some 0, c_d = Some 15, c_h = Some 14, c_min = Some 0 \<rparr>"
  "utcOf \<lparr> c_y = Some 2024, c_mon = Some 0, c_d = Some 15, c_h = Some 14, c_min = Some 0 \<rparr> = Some 1705327200000"
  "utcOf (guessFields (partsOf NumericEnUS newYork 1705327200000)) = Some 1705309200000"
  "utcOf (guessFields (partsOf NumericEnUS newYork 1705345200000)) = Some 1705327200000"
  by code_simp+




lemma guessFields_hour:
  "c_h (guessFields parts) = (if partVal parts ''hour'' = Some 24 then Some 0 else partVal parts ''hour'')"
  by (simp add: guessFields_def Let_def)

lemma eval_midnight24:
  "parseIsoLocal ''2024-01-16T00:00'' =
     Some \<lparr> c_y = Some 2024, c_mon = Some 0, c_d = Some 16, c_h = Some 0, c_min = Some 0 \<rparr>"
  "utcOf \<lparr> c_y = Some 2024, c_mon = Some 0, c_d = Some 16, c_h = Some 0, c_min = Some 0 \<rparr> = Some 1705363200000"
  "map (\<lambda>(k, v). if k = ''hour'' \<and> v = ''00'' then (k, ''24'') else (k, v))
     (partsOf NumericEnUS utc 1705363200000) =
   [(''month'', ''1''), (''literal'', ''/''), (''day'', ''16''), (''literal'', ''/''),
    (''year'', ''2024''), (''literal'', '', ''), (''hour'', ''24''), (''literal'', '':''),
    (''minute'', ''00''), (''literal'', '':''), (''second'', ''00'')]"
  "partVal [(''month'', ''1''), (''literal'', ''/''), (''day'', ''16''), (''literal'', ''/''),
    (''year'', ''2024''), (''literal'', '', ''), (''hour'', ''24''), (''literal'', '':''),
    (''minute'', ''00''), (''literal'', '':''), (''second'', ''00'')] ''hour'' = Some 24"
  "utcOf (guessFields [(''month'', ''1''), (''literal'', ''/''), (''day'', ''16''), (''literal'', ''/''),
    (''year'', ''2024''), (''literal'', '', ''), (''hour'', ''24''), (''literal'', '':''),
    (''minute'', ''00''), (''literal'', '':''), (''second'', ''00'')]) = Some 1705363200000"
  by code_simp+

text \<open>
  C9. In the loop of \<open>localStringToDate\<close>, the hour read from the formatter's parts is
  replaced by 0 when it is 24, before the difference is taken: the difference of a
  pass is computed from observed fields whose hour is never 24.
\<close>

theorem loop_hour_24_is_0:
  "c_h (guessFields parts) \<noteq> Some 24 \<and>
   c_h (guessFields parts) = (if partVal parts ''hour'' = Some 24 then Some 0 else partVal parts ''hour'') \<and>
   (i < 3 \<longrightarrow> formatToParts hst NumericEnUS zone g = Inr parts \<longrightarrow>
      converge hst c zone i g =
        (if abs_lt (num_sub (utcOf c) (utcOf (guessFields parts))) 1000 then Inr g
         else converge hst c zone (i + 1)
                (newDate (num_add g (num_sub (utcOf c) (utcOf (guessFields parts)))))))"
  by (subst converge.simps) (simp add: guessFields_hour)

text \<open>Midnight of 16 January 2024 in UTC, on a host that reports it as hour 24 of that day.\<close>

theorem loop_hour_24_is_0_witness:
  "formatToParts (hour24 host2024) NumericEnUS ''UTC'' (Some 1705363200000) =
     Inr [(''month'', ''1''), (''literal'', ''/''), (''day'', ''16''), (''literal'', ''/''),
          (''year'', ''2024''), (''literal'', '', ''), (''hour'', ''24''), (''literal'', '':''),
          (''minute'', ''00''), (''literal'', '':''), (''second'', ''00'')] \<and>
   partVal [(''month'', ''1''), (''literal'', ''/''), (''day'', ''16''), (''literal'', ''/''),
          (''year'', ''2024''), (''literal'', '', ''), (''hour'', ''24''), (''literal'', '':''),
          (''minute'', ''00''), (''literal'', '':''), (''second'', ''00'')] ''hour'' = Some 24 \<and>
   c_h (guessFields [(''month'', ''1''), (''literal'', ''/''), (''day'', ''16''), (''literal'', ''/''),
          (''year'', ''2024''), (''literal'', '', ''), (''hour'', ''24''), (''literal'', '':''),
          (''minute'', ''00''), (''literal'', '':''), (''second'', ''00'')]) = Some 0 \<and>
   converge (hour24 host2024)
     \<lparr> c_y = Some 2024, c_mon = Some 0, c_d = Some 16, c_h = Some 0, c_min = Some 0 \<rparr>
     ''UTC'' 0 (Some 1705363200000) = Inr (Some 1705363200000)"
proof -
  let ?parts = "[(''month'', ''1''), (''literal'', ''/''), (''day'', ''16''), (''literal'', ''/''),
          (''year'', ''2024''), (''literal'', '', ''), (''hour'', ''24''), (''literal'', '':''),
          (''minute'', ''00''), (''literal'', '':''), (''second'', ''00'')]"
  let ?c = "\<lparr> c_y = Some 2024, c_mon = Some 0, c_d = Some 16, c_h = Some 0, c_min = Some 0 \<rparr>"
  have f: "formatToParts (hour24 host2024) NumericEnUS ''UTC'' (Some 1705363200000) = Inr ?parts"
    by (simp add: formatToParts_def host2024_simps eval_midnight24(3))
  from loop_hour_24_is_0[of ?parts 0 "hour24 host2024" "''UTC''" "Some 1705363200000" ?c] f
  show ?thesis
    by (simp add: eval_midnight24(2,4,5) num_sub_def abs_lt_def)
qed

section \<open>Rendering\<close>





section \<open>The planner's transitions\<close>

lemma convert_Some:
  "convert hst w a b = Inr (Some w') \<Longrightarrow>
   \<exists>d. localStringToDate hst w a = Inr (Some d) \<and> dateToLocalString hst d b = w'"
  by (auto simp: convert_def split: sum.splits option.splits)

lemma localStringToDate_empty: "localStringToDate hst [] zone = Inr None"
  by (simp add: localStringToDate_def parseIsoLocal_def)

lemma convert_nonempty: "convert hst w a b = Inr (Some w') \<Longrightarrow> w \<noteq> []"
  by (auto simp: convert_def localStringToDate_empty)

lemma eval_mar1_1000:
  "parseIsoLocal ''2024-03-01T10:00'' =
     Some \<lparr> c_y = Some 2024, c_mon = Some 2, c_d = Some 1, c_h = Some 10, c_min = Some 0 \<rparr>"
  "utcOf \<lparr> c_y = Some 2024, c_mon = Some 2, c_d = Some 1, c_h = Some 10, c_min = Some 0 \<rparr> = Some 1709287200000"
  "utcOf (guessFields (partsOf NumericEnUS newYork 1709287200000)) = Some 1709269200000"
  "utcOf (guessFields (partsOf NumericEnUS newYork 1709305200000)) = Some 1709287200000"
  "wallClockString (partsOf TwoDigitEnGB london 1709305200000) = ''2024-03-01T15:00''"
  by code_simp+

lemma eval_mar1_1600:
  "parseIsoLocal ''2024-03-01T16:00'' =
     Some \<lparr> c_y = Some 2024, c_mon = Some 2, c_d = Some 1, c_h = Some 16, c_min = Some 0 \<rparr>"
  "utcOf \<lparr> c_y = Some 2024, c_mon = Some 2, c_d = Some 1, c_h = Some 16, c_min = Some 0 \<rparr> = Some 1709308800000"
  "utcOf (guessFields (partsOf NumericEnUS london 1709308800000)) = Some 1709308800000"
  "wallClockString (partsOf TwoDigitEnGB newYork 1709308800000) = ''2024-03-01T11:00''"
  by code_simp+

lemma eval_ny_to_london:
  "convert host2024 ''2024-03-01T10:00'' ''America/New_York'' ''Europe/London'' = Inr (Some ''2024-03-01T15:00'')"
  using localStringToDate_second_pass[OF eval_mar1_1000(1,2), of host2024 "''America/New_York''" 1709269200000 1709287200000]
  by (simp add: convert_def dateToLocalString_resolved host2024_simps eval_mar1_1000)

lemma eval_london_to_ny:
  "convert host2024 ''2024-03-01T16:00'' ''Europe/London'' ''America/New_York'' = Inr (Some ''2024-03-01T11:00'')"
  using localStringToDate_first_pass[OF eval_mar1_1600(1,2), of host2024 "''Europe/London''" 1709308800000]
  by (simp add: convert_def dateToLocalString_resolved host2024_simps eval_mar1_1600)

text \<open>
  C4. Editing the user's field to a value that \<open>convert\<close> turns into \<open>w'\<close> makes the user's
  side the anchor and sets the client's field to \<open>w'\<close>, and symmetrically for the
  client's field. Setting either zone identifier leaves the anchor and the anchored
  field as they are, and sets the other field to what \<open>convert\<close> gives from the anchored
  field's zone to the other zone.
\<close>

theorem planner_transitions:
  "(convert hst val (userTimezone st) (clientTimezone st) = Inr (Some w') \<longrightarrow>
      handleUserTimeChange hst val st =
        (st\<lparr> userMeetingTime := val, lastEdited := User, clientMeetingTime := w' \<rparr>, None)) \<and>
   (convert hst val (clientTimezone st) (userTimezone st) = Inr (Some w') \<longrightarrow>
      handleClientTimeChange hst val st =
        (st\<lparr> clientMeetingTime := val, lastEdited := Client, userMeetingTime := w' \<rparr>, None)) \<and>
   (lastEdited st = User \<longrightarrow>
      convert hst (userMeetingTime st) tz (clientTimezone st) = Inr (Some w') \<longrightarrow>
      setUserTimezone hst tz st = (st\<lparr> userTimezone := tz, clientMeetingTime := w' \<rparr>, None)) \<and>
   (lastEdited st = User \<longrightarrow>
      convert hst (userMeetingTime st) (userTimezone st) tz = Inr (Some w') \<longrightarrow>
      setClientTimezone hst tz st = (st\<lparr> clientTimezone := tz, clientMeetingTime := w' \<rparr>, None)) \<and>
   (lastEdited st = Client \<longrightarrow>
      convert hst (clientMeetingTime st) (clientTimezone st) tz = Inr (Some w') \<longrightarrow>
      setUserTimezone hst tz st = (st\<lparr> userTimezone := tz, userMeetingTime := w' \<rparr>, None)) \<and>
   (lastEdited st = Client \<longrightarrow>
      convert hst (clientMeetingTime st) tz (userTimezone st) = Inr (Some w') \<longrightarrow>
      setClientTimezone hst tz st = (st\<lparr> clientTimezone := tz, userMeetingTime := w' \<rparr>, None)) \<and>
   lastEdited (fst (setUserTimezone hst tz st)) = lastEdited st \<and>
   lastEdited (fst (setClientTimezone hst tz st)) = lastEdited st \<and>
   (lastEdited st = User \<longrightarrow>
      userMeetingTime (fst (setUserTimezone hst tz st)) = userMeetingTime st \<and>
      userMeetingTime (fst (setClientTimezone hst tz st)) = userMeetingTime st) \<and>
   (lastEdited st = Client \<longrightarrow>
      clientMeetingTime (fst (setUserTimezone hst tz st)) = clientMeetingTime st \<and>
      clientMeetingTime (fst (setClientTimezone hst tz st)) = clientMeetingTime st)"
proof -
  have a: "convert hst val (userTimezone st) (clientTimezone st) = Inr (Some w') \<longrightarrow>
      handleUserTimeChange hst val st =
        (st\<lparr> userMeetingTime := val, lastEdited := User, clientMeetingTime := w' \<rparr>, None)"
    using convert_nonempty[of hst val "userTimezone st" "clientTimezone st" w']
    by (auto simp: handleUserTimeChange_def Let_def dest!: convert_Some)
  have b: "convert hst val (clientTimezone st) (userTimezone st) = Inr (Some w') \<longrightarrow>
      handleClientTimeChange hst val st =
        (st\<lparr> clientMeetingTime := val, lastEdited := Client, userMeetingTime := w' \<rparr>, None)"
    using convert_nonempty[of hst val "clientTimezone st" "userTimezone st" w']
    by (auto simp: handleClientTimeChange_def Let_def dest!: convert_Some)
  have c: "lastEdited st = User \<longrightarrow>
      convert hst (userMeetingTime st) tz (clientTimezone st) = Inr (Some w') \<longrightarrow>
      setUserTimezone hst tz st = (st\<lparr> userTimezone := tz, clientMeetingTime := w' \<rparr>, None)"
    using convert_nonempty[of hst "userMeetingTime st" tz "clientTimezone st" w']
    by (auto simp: setUserTimezone_def timezoneEffect_def dest!: convert_Some)
  have d: "lastEdited st = User \<longrightarrow>
      convert hst (userMeetingTime st) (userTimezone st) tz = Inr (Some w') \<longrightarrow>
      setClientTimezone hst tz st = (st\<lparr> clientTimezone := tz, clientMeetingTime := w' \<rparr>, None)"
    using convert_nonempty[of hst "userMeetingTime st" "userTimezone st" tz w']
    by (auto simp: setClientTimezone_def timezoneEffect_def dest!: convert_Some)
  have e: "lastEdited st = Client \<longrightarrow>
      convert hst (clientMeetingTime st) (clientTimezone st) tz = Inr (Some w') \<longrightarrow>
      setUserTimezone hst tz st = (st\<lparr> userTimezone := tz, userMeetingTime := w' \<rparr>, None)"
    using convert_nonempty[of hst "clientMeetingTime st" "clientTimezone st" tz w']
    by (auto simp: setUserTimezone_def timezoneEffect_def dest!: convert_Some)
  have f: "lastEdited st = Client \<longrightarrow>
      convert hst (clientMeetingTime st) tz (userTimezone st) = Inr (Some w') \<longrightarrow>
      setClientTimezone hst tz st = (st\<lparr> clientTimezone := tz, userMeetingTime := w' \<rparr>, None)"
    using convert_nonempty[of hst "clientMeetingTime st" tz "userTimezone st" w']
    by (auto simp: setClientTimezone_def timezoneEffect_def dest!: convert_Some)
  have g: "lastEdited (fst (timezoneEffect hst s)) = lastEdited s" for s
    by (simp add: timezoneEffect_def split: sum.splits option.splits)
  have h: "lastEdited s = User \<longrightarrow> userMeetingTime (fst (timezoneEffect hst s)) = userMeetingTime s" for s
    by (simp add: timezoneEffect_def split: sum.splits option.splits)
  have i: "lastEdited s = Client \<longrightarrow> clientMeetingTime (fst (timezoneEffect hst s)) = clientMeetingTime s" for s
    by (simp add: timezoneEffect_def split: sum.splits option.splits)
  show ?thesis
    using a b c d e f g[of "st\<lparr>userTimezone := tz\<rparr>"] g[of "st\<lparr>clientTimezone := tz\<rparr>"]
      h[of "st\<lparr>userTimezone := tz\<rparr>"] h[of "st\<lparr>clientTimezone := tz\<rparr>"]
      i[of "st\<lparr>userTimezone := tz\<rparr>"] i[of "st\<lparr>clientTimezone := tz\<rparr>"]
    by (simp add: setUserTimezone_def setClientTimezone_def)
qed

text \<open>The anchor switching scenario of the specification, and the four zone changes.\<close>

theorem planner_transitions_witness:
  "handleUserTimeChange host2024 ''2024-03-01T10:00''
     \<lparr> userTimezone = ''America/New_York'', clientTimezone = ''Europe/London'',
       userMeetingTime = [], clientMeetingTime = [], lastEdited = User \<rparr> =
     (\<lparr> userTimezone = ''America/New_York'', clientTimezone = ''Europe/London'',
        userMeetingTime = ''2024-03-01T10:00'', clientMeetingTime = ''2024-03-01T15:00'',
        lastEdited = User \<rparr>, None) \<and>
   handleClientTimeChange host2024 ''2024-03-01T16:00''
     \<lparr> userTimezone = ''America/New_York'', clientTimezone = ''Europe/London'',
       userMeetingTime = ''2024-03-01T10:00'', clientMeetingTime = ''2024-03-01T15:00'',
       lastEdited = User \<rparr> =
     (\<lparr> userTimezone = ''America/New_York'', clientTimezone = ''Europe/London'',
        userMeetingTime = ''2024-03-01T11:00'', clientMeetingTime = ''2024-03-01T16:00'',
        lastEdited = Client \<rparr>, None) \<and>
   setUserTimezone host2024 ''America/New_York''
     \<lparr> userTimezone = ''UTC'', clientTimezone = ''Europe/London'',
       userMeetingTime = ''2024-03-01T10:00'', clientMeetingTime = ''2024-03-01T10:00'',
       lastEdited = User \<rparr> =
     (\<lparr> userTimezone = ''America/New_York'', clientTimezone = ''Europe/London'',
        userMeetingTime = ''2024-03-01T10:00'', clientMeetingTime = ''2024-03-01T15:00'',
        lastEdited = User \<rparr>, None) \<and>
   setClientTimezone host2024 ''Europe/London''
     \<lparr> userTimezone = ''America/New_York'', clientTimezone = ''UTC'',
       userMeetingTime = ''2024-03-01T10:00'', clientMeetingTime = ''2024-03-01T15:00'',
       lastEdited = User \<rparr> =
     (\<lparr> userTimezone = ''America/New_York'', clientTimezone = ''Europe/London'',
        userMeetingTime = ''2024-03-01T10:00'', clientMeetingTime = ''2024-03-01T15:00'',
        lastEdited = User \<rparr>, None) \<and>
   setUserTimezone host2024 ''America/New_York''
     \<lparr> userTimezone = ''UTC'', clientTimezone = ''Europe/London'',
       userMeetingTime = ''2024-03-01T16:00'', clientMeetingTime = ''2024-03-01T16:00'',
       lastEdited = Client \<rparr> =
     (\<lparr> userTimezone = ''America/New_York'', clientTimezone = ''Europe/London'',
        userMeetingTime = ''2024-03-01T11:00'', clientMeetingTime = ''2024-03-01T16:00'',
        lastEdited = Client \<rparr>, None) \<and>
   setClientTimezone host2024 ''Europe/London''
     \<lparr> userTimezone = ''America/New_York'', clientTimezone = ''UTC'',
       userMeetingTime = ''2024-03-01T16:00'', clientMeetingTime = ''2024-03-01T16:00'',
       lastEdited = Client \<rparr> =
     (\<lparr> userTimezone = ''America/New_York'', clientTimezone = ''Europe/London'',
        userMeetingTime = ''2024-03-01T11:00'', clientMeetingTime = ''2024-03-01T16:00'',
        lastEdited = Client \<rparr>, None)"
  using
    planner_transitions[of host2024 "''2024-03-01T10:00''"
      "\<lparr> userTimezone = ''America/New_York'', clientTimezone = ''Europe/London'',
         userMeetingTime = [], clientMeetingTime = [], lastEdited = User \<rparr>" "''2024-03-01T15:00''"]
    planner_transitions[of host2024 "''2024-03-01T16:00''"
      "\<lparr> userTimezone = ''America/New_York'', clientTimezone = ''Europe/London'',
         userMeetingTime = ''2024-03-01T10:00'', clientMeetingTime = ''2024-03-01T15:00'',
         lastEdited = User \<rparr>" "''2024-03-01T11:00''"]
    planner_transitions[of host2024 _
      "\<lparr> userTimezone = ''UTC'', clientTimezone = ''Europe/London'',
         userMeetingTime = ''2024-03-01T10:00'', clientMeetingTime = ''2024-03-01T10:00'',
         lastEdited = User \<rparr>" "''2024-03-01T15:00''" "''America/New_York''"]
    planner_transitions[of host2024 _
      "\<lparr> userTimezone = ''America/New_York'', clientTimezone = ''UTC'',
         userMeetingTime = ''2024-03-01T10:00'', clientMeetingTime = ''2024-03-01T15:00'',
         lastEdited = User \<rparr>" "''2024-03-01T15:00''" "''Europe/London''"]
    planner_transitions[of host2024 _
      "\<lparr> userTimezone = ''UTC'', clientTimezone = ''Europe/London'',
         userMeetingTime = ''2024-03-01T16:00'', clientMeetingTime = ''2024-03-01T16:00'',
         lastEdited = Client \<rparr>" "''2024-03-01T11:00''" "''America/New_York''"]
    planner_transitions[of host2024 _
      "\<lparr> userTimezone = ''America/New_York'', clientTimezone = ''UTC'',
         userMeetingTime = ''2024-03-01T16:00'', clientMeetingTime = ''2024-03-01T16:00'',
         lastEdited = Client \<rparr>" "''2024-03-01T11:00''" "''Europe/London''"]
  by (simp add: eval_ny_to_london eval_london_to_ny)

text \<open>
  C6, as the code has it. Clearing a field clears the other field too, and the cleared
  field's side becomes the anchor (every edit sets it, an edit to the empty string
  included); the effect that follows changes nothing.
\<close>

theorem clearing_sets_anchor:
  "handleUserTimeChange hst [] st =
     (st\<lparr> userMeetingTime := [], lastEdited := User, clientMeetingTime := [] \<rparr>, None) \<and>
   handleClientTimeChange hst [] st =
     (st\<lparr> clientMeetingTime := [], lastEdited := Client, userMeetingTime := [] \<rparr>, None) \<and>
   timezoneEffect hst (st\<lparr> userMeetingTime := [], lastEdited := User, clientMeetingTime := [] \<rparr>) =
     (st\<lparr> userMeetingTime := [], lastEdited := User, clientMeetingTime := [] \<rparr>, None) \<and>
   timezoneEffect hst (st\<lparr> clientMeetingTime := [], lastEdited := Client, userMeetingTime := [] \<rparr>) =
     (st\<lparr> clientMeetingTime := [], lastEdited := Client, userMeetingTime := [] \<rparr>, None)"
  by (simp add: handleUserTimeChange_def handleClientTimeChange_def timezoneEffect_def)

theorem clearing_sets_anchor_witness:
  "handleClientTimeChange host2024 []
     \<lparr> userTimezone = ''America/New_York'', clientTimezone = ''Europe/London'',
       userMeetingTime = ''2024-03-01T10:00'', clientMeetingTime = ''2024-03-01T15:00'',
       lastEdited = User \<rparr> =
     (\<lparr> userTimezone = ''America/New_York'', clientTimezone = ''Europe/London'',
        userMeetingTime = [], clientMeetingTime = [], lastEdited = Client \<rparr>, None) \<and>
   timezoneEffect host2024
     \<lparr> userTimezone = ''America/New_York'', clientTimezone = ''Europe/London'',
       userMeetingTime = [], clientMeetingTime = [], lastEdited = Client \<rparr> =
     (\<lparr> userTimezone = ''America/New_York'', clientTimezone = ''Europe/London'',
        userMeetingTime = [], clientMeetingTime = [], lastEdited = Client \<rparr>, None)"
  using clearing_sets_anchor[of host2024
      "\<lparr> userTimezone = ''America/New_York'', clientTimezone = ''Europe/London'',
         userMeetingTime = ''2024-03-01T10:00'', clientMeetingTime = ''2024-03-01T15:00'',
         lastEdited = User \<rparr>"]
  by simp

text \<open>C6 as stated fails: with the client's side as anchor, clearing the user's field moves the anchor.\<close>

theorem clearing_anchor_counterexample:
  "lastEdited \<lparr> userTimezone = ''America/New_York'', clientTimezone = ''Europe/London'',
       userMeetingTime = ''2024-03-01T11:00'', clientMeetingTime = ''2024-03-01T16:00'',
       lastEdited = Client \<rparr> = Client \<and>
   handleUserTimeChange host2024 []
     \<lparr> userTimezone = ''America/New_York'', clientTimezone = ''Europe/London'',
       userMeetingTime = ''2024-03-01T11:00'', clientMeetingTime = ''2024-03-01T16:00'',
       lastEdited = Client \<rparr> =
     (\<lparr> userTimezone = ''America/New_York'', clientTimezone = ''Europe/London'',
        userMeetingTime = [], clientMeetingTime = [], lastEdited = User \<rparr>, None)"
  by (simp add: handleUserTimeChange_def)

lemma eval_rejected:
  "parseIsoLocal ''next friday'' = None"
  "parseIsoLocal ''2024-03-01'' = None"
  by code_simp+

text \<open>
  C7, as the code has it. For a non-empty string that \<open>parseIsoLocal\<close> rejects the
  conversion is skipped and the other field keeps the value it had: the handler stores
  the string, sets the anchor and changes nothing else, and neither does the effect
  that follows.
\<close>

theorem rejected_input_keeps_other_field:
  "val \<noteq> [] \<Longrightarrow> parseIsoLocal val = None \<Longrightarrow>
   handleUserTimeChange hst val st = (st\<lparr> userMeetingTime := val, lastEdited := User \<rparr>, None) \<and>
   handleClientTimeChange hst val st = (st\<lparr> clientMeetingTime := val, lastEdited := Client \<rparr>, None) \<and>
   timezoneEffect hst (st\<lparr> userMeetingTime := val, lastEdited := User \<rparr>) =
     (st\<lparr> userMeetingTime := val, lastEdited := User \<rparr>, None) \<and>
   timezoneEffect hst (st\<lparr> clientMeetingTime := val, lastEdited := Client \<rparr>) =
     (st\<lparr> clientMeetingTime := val, lastEdited := Client \<rparr>, None)"
  by (simp add: handleUserTimeChange_def handleClientTimeChange_def timezoneEffect_def
      localStringToDate_def)

theorem rejected_input_keeps_other_field_witness:
  "''2024-03-01'' \<noteq> [] \<and> parseIsoLocal ''2024-03-01'' = None \<and>
   handleClientTimeChange host2024 ''2024-03-01''
     \<lparr> userTimezone = ''America/New_York'', clientTimezone = ''Europe/London'',
       userMeetingTime = ''2024-03-01T10:00'', clientMeetingTime = ''2024-03-01T15:00'',
       lastEdited = User \<rparr> =
     (\<lparr> userTimezone = ''America/New_York'', clientTimezone = ''Europe/London'',
        userMeetingTime = ''2024-03-01T10:00'', clientMeetingTime = ''2024-03-01'',
        lastEdited = Client \<rparr>, None)"
proof -
  have n: "''2024-03-01'' \<noteq> []" by simp
  from rejected_input_keeps_other_field[OF n eval_rejected(2), of host2024
      "\<lparr> userTimezone = ''America/New_York'', clientTimezone = ''Europe/London'',
         userMeetingTime = ''2024-03-01T10:00'', clientMeetingTime = ''2024-03-01T15:00'',
         lastEdited = User \<rparr>"]
  show ?thesis by (simp add: eval_rejected(2))
qed

text \<open>C7 as stated fails: the other field is not cleared, it keeps its earlier value.\<close>

theorem rejected_input_counterexample:
  "''next friday'' \<noteq> [] \<and> parseIsoLocal ''next friday'' = None \<and>
   handleUserTimeChange host2024 ''next friday''
     \<lparr> userTimezone = ''America/New_York'', clientTimezone = ''Europe/London'',
       userMeetingTime = ''2024-03-01T10:00'', clientMeetingTime = ''2024-03-01T15:00'',
       lastEdited = User \<rparr> =
     (\<lparr> userTimezone = ''America/New_York'', clientTimezone = ''Europe/London'',
        userMeetingTime = ''next friday'', clientMeetingTime = ''2024-03-01T15:00'',
        lastEdited = User \<rparr>, None)"
  by (simp add: handleUserTimeChange_def localStringToDate_def eval_rejected)

section \<open>Zones the formatter cannot resolve\<close>

text \<open>
  C5. For a zone the formatter cannot resolve, \<open>dateToLocalString\<close> and \<open>getAbbreviation\<close>
  catch the exception and return the empty string. \<open>localStringToDate\<close> has no handler:
  it returns \<open>null\<close> only when the string has no date or time part, and otherwise the
  formatter's \<open>RangeError\<close> leaves it uncaught.
\<close>

theorem unresolvable_zone:
  "\<not> resolves hst zone \<Longrightarrow>
   dateToLocalString hst d zone = [] \<and>
   getAbbreviation hst d zone = [] \<and>
   (parseIsoLocal s = None \<longrightarrow> localStringToDate hst s zone = Inr None) \<and>
   (parseIsoLocal s \<noteq> None \<longrightarrow> localStringToDate hst s zone = Inl RangeError)"
  by (auto simp: dateToLocalString_def getAbbreviation_def abbreviationBody_def formatter_def
      formatToParts_def localStringToDate_def converge_unresolved)

theorem unresolvable_zone_witness:
  "\<not> resolves host2024 ''Mars/Olympus'' \<and>
   parseIsoLocal ''2024-01-15T14:00'' \<noteq> None \<and>
   dateToLocalString host2024 (Some 1705345200000) ''Mars/Olympus'' = [] \<and>
   getAbbreviation host2024 (Some 1705345200000) ''Mars/Olympus'' = [] \<and>
   localStringToDate host2024 ''2024-01-15T14:00'' ''Mars/Olympus'' = Inl RangeError"
proof -
  have u: "\<not> resolves host2024 ''Mars/Olympus''" by (simp add: host2024_simps)
  from unresolvable_zone[OF u, of "Some 1705345200000" "''2024-01-15T14:00''"] u
  show ?thesis by (simp add: eval_jan15_1400(1))
qed

section \<open>The zone label\<close>









section \<open>When \<open>localStringToDate\<close> returns \<open>null\<close>\<close>









section \<open>The calendar\<close>









declare yearFrom.simps [simp del]





















section \<open>Decimal numerals\<close>

declare digitsOf.simps [simp del]













section \<open>What the table host reports\<close>
















section \<open>Resolving a wall-clock value on the table host\<close>









section \<open>The round trip\<close>
















end
